theory Spec2Isabelle
  imports Main "HOL-Library.Sublist"
begin

section \<open>Go errors\<close>

text \<open>
  A Go \<^verbatim>\<open>error\<close> value as the code builds it: \<^verbatim>\<open>errors.New\<close> and
  \<^verbatim>\<open>fmt.Errorf\<close> without \<^verbatim>\<open>%w\<close> give an error that carries only its text;
  \<^verbatim>\<open>fmt.Errorf\<close> with \<^verbatim>\<open>%w\<close> gives an error that carries its formatted text and
  the wrapped error (what \<^verbatim>\<open>Unwrap\<close> returns).
\<close>

datatype error = ErrorString string | WrapError string error

fun Error :: "error \<Rightarrow> string" where
  "Error (ErrorString s) = s"
| "Error (WrapError s e) = s"

fun Unwrap :: "error \<Rightarrow> error option" where
  "Unwrap (ErrorString s) = None"
| "Unwrap (WrapError s e) = Some e"

text \<open>\<^verbatim>\<open>errors.Is(err, target)\<close>: \<open>target\<close> is somewhere on the unwrap chain of \<open>err\<close>.\<close>

fun Is :: "error \<Rightarrow> error \<Rightarrow> bool" where
  "Is (ErrorString s) target = (ErrorString s = target)"
| "Is (WrapError s e) target = (WrapError s e = target \<or> Is e target)"

section \<open>internal/docker: the runtime connector\<close>

text \<open>The options handed to the client constructor (\<^verbatim>\<open>client.Opt\<close> values used by the code).\<close>

datatype Opt = WithHost string | FromEnv | WithAPIVersionNegotiation | WithTraceProvider_NeverSample

text \<open>
  What the connector does to the outside world, in order: a call of the injected constructor
  \<^verbatim>\<open>newPing\<close> with its options, a \<^verbatim>\<open>Ping\<close> of a constructed client, a line printed
  by \<^verbatim>\<open>pterm.Debug.Printfln\<close>.
\<close>

datatype 'c docker_event = CallNewPing "Opt list" | CallPing 'c | DebugPrintfln string

record 'c Docker =
  Client :: 'c

text \<open>One element of the JSON array printed by \<^verbatim>\<open>docker context inspect\<close>; the code
  decodes only \<^verbatim>\<open>Endpoints.Docker.Host\<close>.\<close>

record contextEntry =
  Endpoints_Docker_Host :: string

text \<open>
  The collaborators of \<^verbatim>\<open>newWithOptions\<close> that are not part of the package:
  the result of \<^verbatim>\<open>exec.Command("docker", "context", "inspect").Output()\<close>,
  \<^verbatim>\<open>json.Unmarshal\<close> on that output, the constant \<^verbatim>\<open>paths.UserHome\<close> and the
  sentinel \<^verbatim>\<open>abctl.ErrDocker\<close>.
\<close>

record platform =
  contextInspect :: "error + string"
  jsonUnmarshal :: "string \<Rightarrow> error + contextEntry list"
  UserHome :: string
  ErrDocker :: error

text \<open>Lines 101-114 of docker.go: the host of the current docker context, when there is one.\<close>

definition contextHosts :: "platform \<Rightarrow> string list" where
  "contextHosts sys =
     (case contextInspect sys of
        Inl err \<Rightarrow> []
      | Inr out \<Rightarrow>
          (case jsonUnmarshal sys out of
             Inl err \<Rightarrow> []
           | Inr data \<Rightarrow>
               (if length data > 0 \<and> Endpoints_Docker_Host (data ! 0) \<noteq> ''''
                then [Endpoints_Docker_Host (data ! 0)] else [])))"

text \<open>Lines 119-132 of docker.go: the \<^verbatim>\<open>switch goos\<close>.\<close>

definition fallbackHosts :: "platform \<Rightarrow> string \<Rightarrow> string list" where
  "fallbackHosts sys goos =
     (if goos = ''darwin'' then
        [''unix:///var/run/docker.sock'',
         ''unix://'' @ UserHome sys @ ''/.docker/run/docker.sock'']
      else if goos = ''windows'' then
        [''npipe:////./pipe/docker_engine'']
      else
        [''unix:///var/run/docker.sock'',
         ''unix://'' @ UserHome sys @ ''/.docker/desktop/docker-cli.sock''])"

definition potentialHosts :: "platform \<Rightarrow> string \<Rightarrow> string list" where
  "potentialHosts sys goos = contextHosts sys @ fallbackHosts sys goos"

definition dockerOpts :: "Opt list" where
  "dockerOpts = [FromEnv, WithAPIVersionNegotiation, WithTraceProvider_NeverSample]"

text \<open>
  \<^verbatim>\<open>createAndPing\<close>: the constructor is called with \<^verbatim>\<open>WithHost(host)\<close> in front of
  the other options; either failure is wrapped and returned, otherwise the client is.
\<close>

definition createAndPing ::
  "(Opt list \<Rightarrow> error + 'c) \<Rightarrow> ('c \<Rightarrow> error option) \<Rightarrow> string \<Rightarrow> Opt list
     \<Rightarrow> (error + 'c) \<times> 'c docker_event list" where
  "createAndPing newPing ping host opts =
     (case newPing (WithHost host # opts) of
        Inl err \<Rightarrow>
          (Inl (WrapError (''unable to create docker client: '' @ Error err) err),
           [CallNewPing (WithHost host # opts)])
      | Inr cli \<Rightarrow>
          (case ping cli of
             Some err \<Rightarrow>
               (Inl (WrapError (''unable to ping docker client: '' @ Error err) err),
                [CallNewPing (WithHost host # opts), CallPing cli])
           | None \<Rightarrow>
               (Inr cli, [CallNewPing (WithHost host # opts), CallPing cli])))"

text \<open>Lines 142-151 of docker.go: the loop over the candidates and the final error.\<close>

fun connectLoop ::
  "error \<Rightarrow> (Opt list \<Rightarrow> error + 'c) \<Rightarrow> ('c \<Rightarrow> error option) \<Rightarrow> string list
     \<Rightarrow> (error + 'c Docker) \<times> 'c docker_event list" where
  "connectLoop errDocker newPing ping [] =
     (Inl (WrapError (Error errDocker @ '': unable to create docker client'') errDocker), [])"
| "connectLoop errDocker newPing ping (host # hosts) =
     (case createAndPing newPing ping host dockerOpts of
        (Inl err, evs) \<Rightarrow>
          (case connectLoop errDocker newPing ping hosts of
             (r, evs') \<Rightarrow>
               (r, evs @ [DebugPrintfln (''error connecting to docker host '' @ host @ '': '' @ Error err)] @ evs'))
      | (Inr dockerCli, evs) \<Rightarrow> (Inr \<lparr>Client = dockerCli\<rparr>, evs))"

definition newWithOptions ::
  "platform \<Rightarrow> (Opt list \<Rightarrow> error + 'c) \<Rightarrow> ('c \<Rightarrow> error option) \<Rightarrow> string
     \<Rightarrow> (error + 'c Docker) \<times> 'c docker_event list" where
  "newWithOptions sys newPing ping goos =
     connectLoop (ErrDocker sys) newPing ping (potentialHosts sys goos)"

text \<open>Reading a trace of the connector: the hosts it tried, in order, and the lines it
  printed at debug level.\<close>

fun attemptedHosts :: "'c docker_event list \<Rightarrow> string list" where
  "attemptedHosts [] = []"
| "attemptedHosts (CallNewPing (WithHost h # opts) # evs) = h # attemptedHosts evs"
| "attemptedHosts (ev # evs) = attemptedHosts evs"

fun debugLines :: "'c docker_event list \<Rightarrow> string list" where
  "debugLines [] = []"
| "debugLines (DebugPrintfln s # evs) = s # debugLines evs"
| "debugLines (ev # evs) = debugLines evs"

text \<open>The debug line the loop prints for a host whose \<^verbatim>\<open>createAndPing\<close> failed.\<close>

definition failureLine :: "(Opt list \<Rightarrow> error + 'c) \<Rightarrow> ('c \<Rightarrow> error option) \<Rightarrow> string \<Rightarrow> string" where
  "failureLine newPing ping host =
     ''error connecting to docker host '' @ host @ '': ''
       @ Error (projl (fst (createAndPing newPing ping host dockerOpts)))"

subsection \<open>Concrete runs of the connector\<close>

definition sys0 :: platform where
  "sys0 = \<lparr>contextInspect = Inl (ErrorString ''exit status 1''),
           jsonUnmarshal = (\<lambda>out. Inr []),
           UserHome = ''/home/u'',
           ErrDocker = ErrorString ''error communicating with docker''\<rparr>"

definition sys1 :: platform where
  "sys1 = \<lparr>contextInspect = Inr ''[ctx]'',
           jsonUnmarshal = (\<lambda>out. Inr [\<lparr>Endpoints_Docker_Host = ''unix:///run/user/1000/docker.sock''\<rparr>]),
           UserHome = ''/home/u'',
           ErrDocker = ErrorString ''error communicating with docker''\<rparr>"

text \<open>A constructor that always fails; one that returns a client named after its host;
  pings that answer on one socket only.\<close>

definition newPing_boom :: "Opt list \<Rightarrow> error + string" where
  "newPing_boom opts = Inl (ErrorString ''boom'')"

fun newPing_host :: "Opt list \<Rightarrow> error + string" where
  "newPing_host (WithHost h # opts) = Inr h"
| "newPing_host opts = Inl (ErrorString ''no host'')"

definition ping_desktop :: "string \<Rightarrow> error option" where
  "ping_desktop cli = (if cli = ''unix:///home/u/.docker/desktop/docker-cli.sock'' then None
                       else Some (ErrorString ''connection refused''))"

definition ping_standard :: "string \<Rightarrow> error option" where
  "ping_standard cli = (if cli = ''unix:///var/run/docker.sock'' then None
                        else Some (ErrorString ''connection refused''))"

section \<open>Package local: the uninstall command\<close>

datatype ProviderKind = Kind | Test

record Provider =
  Name :: ProviderKind
  ClusterName :: string
  Context :: string
  Kubeconfig :: string

record UninstallCmd =
  Persisted :: bool

text \<open>The telemetry event type handed to \<^verbatim>\<open>telClient.Wrap\<close> (\<^verbatim>\<open>telemetry.Uninstall\<close>).\<close>

datatype EventType = Uninstall

text \<open>
  What \<^verbatim>\<open>Run\<close> does to its collaborators, in order: the tracing span, the spinner, the
  \<^verbatim>\<open>pterm\<close> printers (one constructor per printer, holding the text without the final
  newline), and the calls whose results decide the control flow.
\<close>

datatype event =
    NewSpan string
  | SpanSetAttributes_Bool string bool
  | SpanEnd
  | SpinnerStart string
  | SpinnerUpdateText string
  | SpinnerSuccess string
  | PtermError string
  | PtermSuccess string
  | PtermWarning string
  | PtermDebug string
  | CallDockerInstalled
  | WrapStart EventType
  | WrapEnd EventType
  | CallProviderCluster
  | CallClusterExists
  | CallNewManager
  | CallUninstall bool
  | CallClusterDelete

text \<open>
  The results of the calls \<^verbatim>\<open>Run\<close> makes, for one run: the error of
  \<^verbatim>\<open>dockerInstalled\<close>, of \<^verbatim>\<open>provider.Cluster\<close>, the answer of
  \<^verbatim>\<open>cluster.Exists\<close>, the error of \<^verbatim>\<open>service.NewManager\<close>, of
  \<^verbatim>\<open>svcMgr.Uninstall\<close> and of \<^verbatim>\<open>cluster.Delete\<close> (\<open>None\<close> is \<^verbatim>\<open>nil\<close>).
  A result is read only if the run reaches the call.
\<close>

record collaborators =
  dockerInstalled_err :: "error option"
  Cluster_err :: "error option"
  Exists_result :: bool
  NewManager_err :: "error option"
  Uninstall_err :: "error option"
  Delete_err :: "error option"

definition quoted :: "string \<Rightarrow> string" where
  "quoted s = [CHR 0x27] @ s @ [CHR 0x27]"

text \<open>
  Modelled from the spec: \<^verbatim>\<open>telemetry.Client.Wrap\<close> is not under src/. The spec gives
  it as running the given operation inside a named, auto-closing measurement scope and
  returning the operation's error.
\<close>

definition telClient_Wrap :: "EventType \<Rightarrow> error option \<times> event list \<Rightarrow> error option \<times> event list" where
  "telClient_Wrap et f = (case f of (err, evs) \<Rightarrow> (err, [WrapStart et] @ evs @ [WrapEnd et]))"

text \<open>Lines 266-275 of src/internal/docker/docker.go (package local): the deployment manager, whose failures are only warned about.\<close>

definition uninstallService :: "collaborators \<Rightarrow> UninstallCmd \<Rightarrow> event list" where
  "uninstallService c u =
     (case NewManager_err c of
        Some err \<Rightarrow>
          [CallNewManager,
           PtermWarning ''Failed to initialize 'local' command\<newline>Uninstallation attempt will continue'',
           PtermDebug (''Initialization of 'local' failed with '' @ Error err)]
      | None \<Rightarrow>
          (case Uninstall_err c of
             Some err \<Rightarrow>
               [CallNewManager, CallUninstall (Persisted u),
                PtermWarning (''unable to complete uninstall: '' @ Error err),
                PtermWarning ''will still attempt to uninstall the cluster'']
           | None \<Rightarrow> [CallNewManager, CallUninstall (Persisted u)]))"

text \<open>Lines 249-287 of the same file: the function handed to \<^verbatim>\<open>telClient.Wrap\<close>.\<close>

definition uninstallBody :: "collaborators \<Rightarrow> UninstallCmd \<Rightarrow> Provider \<Rightarrow> error option \<times> event list" where
  "uninstallBody c u provider =
     (let lookup = [SpinnerUpdateText (''Checking for existing Kubernetes cluster '' @ quoted (ClusterName provider)),
                    CallProviderCluster]
      in case Cluster_err c of
        Some err \<Rightarrow>
          (Some err,
           lookup @ [PtermError (''Unable to determine if the cluster '' @ quoted (ClusterName provider) @ '' exists'')])
      | None \<Rightarrow>
          if \<not> Exists_result c then
            (None,
             lookup @ [CallClusterExists,
                       PtermSuccess (''Cluster '' @ quoted (ClusterName provider)
                                     @ '' does not exist\<newline>No additional action required'')])
          else
            (let found = lookup @ [CallClusterExists,
                                   PtermSuccess (''Existing cluster '' @ quoted (ClusterName provider) @ '' found'')]
                           @ uninstallService c u
                           @ [SpinnerUpdateText (''Verifying uninstallation status of cluster ''
                                                 @ quoted (ClusterName provider)),
                              CallClusterDelete]
             in case Delete_err c of
               Some err \<Rightarrow>
                 (Some (ErrorString (''unable to uninstall cluster '' @ ClusterName provider)),
                  found @ [PtermError (''Uninstallation of cluster '' @ quoted (ClusterName provider) @ '' failed'')])
             | None \<Rightarrow>
                 (None,
                  found @ [PtermSuccess (''Uninstallation of cluster '' @ quoted (ClusterName provider)
                                         @ '' completed successfully''),
                           SpinnerSuccess ''Airbyte uninstallation complete''])))"

text \<open>\<^verbatim>\<open>UninstallCmd.Run\<close> (lines 233-288); the deferred \<^verbatim>\<open>span.End()\<close> closes every path.\<close>

definition Run :: "collaborators \<Rightarrow> UninstallCmd \<Rightarrow> Provider \<Rightarrow> error option \<times> event list" where
  "Run c u provider =
     (let start = [NewSpan ''local uninstall'',
                   SpanSetAttributes_Bool ''persisted'' (Persisted u),
                   SpinnerStart ''Starting uninstallation'',
                   SpinnerUpdateText ''Checking for Docker installation'',
                   CallDockerInstalled]
      in case dockerInstalled_err c of
        Some err \<Rightarrow>
          (Some (WrapError (''unable to determine docker installation status: '' @ Error err) err),
           start @ [PtermError ''Unable to determine if Docker is installed'', SpanEnd])
      | None \<Rightarrow>
          (case telClient_Wrap Uninstall (uninstallBody c u provider) of
             (r, evs) \<Rightarrow> (r, start @ evs @ [SpanEnd])))"

text \<open>\<open>happensBefore a b tr\<close>: the first \<open>a\<close> of the trace is followed, later, by a \<open>b\<close>.\<close>

fun happensBefore :: "'a \<Rightarrow> 'a \<Rightarrow> 'a list \<Rightarrow> bool" where
  "happensBefore a b [] = False"
| "happensBefore a b (x # xs) = (if x = a then b \<in> set xs else happensBefore a b xs)"

subsection \<open>Concrete runs of the command\<close>

definition allGood :: collaborators where
  "allGood = \<lparr>dockerInstalled_err = None, Cluster_err = None, Exists_result = True,
              NewManager_err = None, Uninstall_err = None, Delete_err = None\<rparr>"

definition cmd0 :: UninstallCmd where
  "cmd0 = \<lparr>Persisted = False\<rparr>"

definition prov0 :: Provider where
  "prov0 = \<lparr>Name = Kind, ClusterName = ''airbyte-abctl'', Context = ''kind-airbyte-abctl'',
            Kubeconfig = ''/home/u/.airbyte/abctl/abctl.kubeconfig''\<rparr>"

definition serviceFails :: collaborators where
  "serviceFails = allGood\<lparr>Uninstall_err := Some (ErrorString ''helm: release not found'')\<rparr>"

definition managerFails :: collaborators where
  "managerFails = allGood\<lparr>NewManager_err := Some (ErrorString ''no kubeconfig'')\<rparr>"

definition noCluster :: collaborators where
  "noCluster = allGood\<lparr>Exists_result := False, NewManager_err := Some (ErrorString ''unreachable''),
                        Delete_err := Some (ErrorString ''unreachable'')\<rparr>"


definition noDocker :: collaborators where
  "noDocker = allGood\<lparr>dockerInstalled_err := Some (ErrorString ''docker not found'')\<rparr>"

section \<open>Package airbyte: the log scanner\<close>

record LogLine =
  Level :: string
  Message :: string

text \<open>
  Modelled from the spec: the structured record a line is parsed into, with the fields
  the spec lists (\<open>timestamp\<close>, \<open>message\<close>, \<open>level\<close>, \<open>logSource\<close>, \<open>caller\<close>,
  \<open>throwable\<close>). The type of the scanner is not under src/; only its test is.
\<close>

record structuredLine =
  timestamp :: int
  message :: string
  level :: string
  logSource :: string
  caller :: string
  throwable :: "string option"

text \<open>
  Modelled from the spec: the input is cut into lines at the newline character; a final
  newline does not start another line. (\<^verbatim>\<open>NewLogScanner\<close> and \<^verbatim>\<open>Scan\<close> are not
  under src/.)
\<close>

fun splitLines :: "string \<Rightarrow> string list" where
  "splitLines [] = []"
| "splitLines (c # cs) =
     (if c = CHR ''\<newline>'' then [] # splitLines cs
      else (case splitLines cs of [] \<Rightarrow> [[c]] | l # ls \<Rightarrow> (c # l) # ls))"

text \<open>
  Modelled from the spec: the scanner holds the lines not yet read, the read failure
  of the underlying stream (met once those lines are consumed, \<open>None\<close> at a clean end
  of input), the most recently scanned record and its error.
\<close>

record LogScanner =
  pending :: "string list"
  failure :: "error option"
  Line :: LogLine
  err :: "error option"

definition NewLogScanner :: "string \<Rightarrow> error option \<Rightarrow> LogScanner" where
  "NewLogScanner input readFailure =
     \<lparr>pending = splitLines input, failure = readFailure,
      Line = \<lparr>Level = '''', Message = ''''\<rparr>, err = None\<rparr>"

text \<open>
  Modelled from the spec: a line that parses as a structured record surfaces its level
  and message; any other line is the message, with an empty level. The parser of
  structured lines (the JSON decoder) is the parameter \<open>decode\<close>.
\<close>

definition scanLine :: "(string \<Rightarrow> structuredLine option) \<Rightarrow> string \<Rightarrow> LogLine" where
  "scanLine decode line =
     (case decode line of
        Some r \<Rightarrow> \<lparr>Level = level r, Message = message r\<rparr>
      | None \<Rightarrow> \<lparr>Level = '''', Message = line\<rparr>)"

text \<open>Modelled from the spec: \<^verbatim>\<open>Scan\<close> advances to the next line and is false at the end
  of input or on a read failure; only a read failure sets the error.\<close>

definition Scan :: "(string \<Rightarrow> structuredLine option) \<Rightarrow> LogScanner \<Rightarrow> bool \<times> LogScanner" where
  "Scan decode s =
     (case pending s of
        [] \<Rightarrow> (False, s\<lparr>err := failure s\<rparr>)
      | l # ls \<Rightarrow> (True, s\<lparr>pending := ls, Line := scanLine decode l\<rparr>))"

definition Err :: "LogScanner \<Rightarrow> error option" where
  "Err s = err s"

text \<open>The caller's loop \<^verbatim>\<open>for s.Scan() { ... s.Line ... s.Err() ... }\<close>: the record and
  the error seen after each successful \<^verbatim>\<open>Scan\<close>.\<close>

function scanAll :: "(string \<Rightarrow> structuredLine option) \<Rightarrow> LogScanner \<Rightarrow> (LogLine \<times> error option) list" where
  "scanAll decode s =
     (if fst (Scan decode s)
      then (Line (snd (Scan decode s)), Err (snd (Scan decode s))) # scanAll decode (snd (Scan decode s))
      else [])"
  by pat_completeness auto
termination
  by (relation "measure (\<lambda>(decode, s). length (pending s))")
     (auto simp: Scan_def split: list.splits)

declare scanAll.simps [simp del]

text \<open>The two lines of the scanner's test, and a decoder that knows the second one.\<close>

definition testLine1 :: string where
  "testLine1 = ''nonjsonline''"

definition testLine2 :: string where
  "testLine2 = ''{\"timestamp\":1734723317023,\"message\":\"Waiting for database to become available...\",\"level\":\"WARN\",\"logSource\":\"platform\",\"caller\":{\"className\":\"io.airbyte.db.check.DatabaseAvailabilityCheck\",\"methodName\":\"check\",\"lineNumber\":38,\"threadName\":\"main\"},\"throwable\":null}''"

definition testDecode :: "string \<Rightarrow> structuredLine option" where
  "testDecode line =
     (if line = testLine2 then
        Some \<lparr>timestamp = 1734723317023,
              message = ''Waiting for database to become available...'',
              level = ''WARN'', logSource = ''platform'',
              caller = ''io.airbyte.db.check.DatabaseAvailabilityCheck.check:38 main'',
              throwable = None\<rparr>
      else None)"

section \<open>internal/k8s: the providers\<close>

text \<open>
  Modelled from the spec: the values behind \<^verbatim>\<open>paths.Kubeconfig\<close> and
  \<^verbatim>\<open>paths.FileKubeconfig\<close> and the temporary directory of the test profile are not
  under src/. The spec gives a kubeconfig path as a file of a fixed name in a directory, the
  well-known user directory for the default profile and a temporary one for the test profile.
\<close>

record paths =
  kubeconfigDir :: string
  FileKubeconfig :: string
  tempDir :: string

definition underDir :: "string \<Rightarrow> string \<Rightarrow> string" where
  "underDir dir file = dir @ ''/'' @ file"



definition TestProvider :: "paths \<Rightarrow> Provider" where
  "TestProvider ps =
     \<lparr>Name = Test, ClusterName = ''test-airbyte-abctl'', Context = ''test-airbyte-abctl'',
      Kubeconfig = underDir (tempDir ps) (FileKubeconfig ps)\<rparr>"


text \<open>
  \<^verbatim>\<open>filepath.Dir\<close> on slash-separated paths, for a path that needs no cleaning: all but
  the last element, without the separators that end it; \<^verbatim>\<open>.\<close> when nothing is left of a
  relative path and one separator when nothing is left of a rooted one.
\<close>

definition Dir :: "string \<Rightarrow> string" where
  "Dir path =
     (let d = rev (dropWhile (\<lambda>c. c \<noteq> CHR ''/'') (rev path));
          t = rev (dropWhile (\<lambda>c. c = CHR ''/'') (rev d))
      in if d = [] then ''.'' else if t = [] then ''/'' else t)"

text \<open>
  Modelled from the spec: the part of the machine \<^verbatim>\<open>Provider.Cluster\<close> acts on, the
  directories on disk and the clusters of the runtime.
\<close>

record world =
  dirs :: "string set"
  clusters :: "string set"

record ClusterHandle =
  handleProvider :: Provider

text \<open>
  Modelled from the spec: \<^verbatim>\<open>Provider.Cluster\<close> is not under src/. The spec gives it as
  creating the named cluster if absent or attaching to it if present, and as making sure
  the kubeconfig directory exists; either step can fail (\<open>mkdirErr\<close>, \<open>createErr\<close>), which
  aborts with that error and no handle. The result is the Go pair of handle and error.
\<close>

definition Provider_Cluster ::
  "error option \<Rightarrow> error option \<Rightarrow> Provider \<Rightarrow> world \<Rightarrow> (ClusterHandle option \<times> error option) \<times> world" where
  "Provider_Cluster mkdirErr createErr p w =
     (case mkdirErr of
        Some e \<Rightarrow> ((None, Some e), w)
      | None \<Rightarrow>
          (let w1 = w\<lparr>dirs := insert (Dir (Kubeconfig p)) (dirs w)\<rparr>
           in if ClusterName p \<in> clusters w1 then ((Some \<lparr>handleProvider = p\<rparr>, None), w1)
              else (case createErr of
                      Some e \<Rightarrow> ((None, Some e), w1)
                    | None \<Rightarrow>
                        ((Some \<lparr>handleProvider = p\<rparr>, None),
                         w1\<lparr>clusters := insert (ClusterName p) (clusters w1)\<rparr>))))"

definition paths0 :: paths where
  "paths0 = \<lparr>kubeconfigDir = ''/home/u/.airbyte/abctl'', FileKubeconfig = ''abctl.kubeconfig'',
             tempDir = ''/tmp/abctl''\<rparr>"

definition world0 :: world where
  "world0 = \<lparr>dirs = {''/tmp'', ''/home/u''}, clusters = {}\<rparr>"

section \<open>Properties of the runtime connector\<close>

lemma attemptedHosts_append: "attemptedHosts (xs @ ys) = attemptedHosts xs @ attemptedHosts ys"
  by (induction xs rule: attemptedHosts.induct) simp_all

lemma debugLines_append: "debugLines (xs @ ys) = debugLines xs @ debugLines ys"
  by (induction xs rule: debugLines.induct) simp_all

lemma createAndPing_attempted:
  "attemptedHosts (snd (createAndPing newPing ping host opts)) = [host]"
  by (simp add: createAndPing_def split: sum.splits option.splits)

lemma createAndPing_debug:
  "debugLines (snd (createAndPing newPing ping host opts)) = []"
  by (simp add: createAndPing_def split: sum.splits option.splits)

lemma connectLoop_fail_step:
  assumes "isl (fst (createAndPing newPing ping host dockerOpts))"
  shows "fst (connectLoop ed newPing ping (host # hosts)) = fst (connectLoop ed newPing ping hosts)"
    and "attemptedHosts (snd (connectLoop ed newPing ping (host # hosts)))
           = host # attemptedHosts (snd (connectLoop ed newPing ping hosts))"
    and "debugLines (snd (connectLoop ed newPing ping (host # hosts)))
           = failureLine newPing ping host # debugLines (snd (connectLoop ed newPing ping hosts))"
  using assms createAndPing_attempted[of newPing ping host dockerOpts]
        createAndPing_debug[of newPing ping host dockerOpts]
  by (auto simp: failureLine_def attemptedHosts_append debugLines_append split: prod.splits sum.splits)

lemma connectLoop_ok_step:
  assumes "fst (createAndPing newPing ping host dockerOpts) = Inr c"
  shows "fst (connectLoop ed newPing ping (host # hosts)) = Inr \<lparr>Client = c\<rparr>"
    and "attemptedHosts (snd (connectLoop ed newPing ping (host # hosts))) = [host]"
    and "debugLines (snd (connectLoop ed newPing ping (host # hosts))) = []"
  using assms createAndPing_attempted[of newPing ping host dockerOpts]
        createAndPing_debug[of newPing ping host dockerOpts]
  by (auto split: prod.splits sum.splits)

lemma connectLoop_first_success:
  assumes "\<forall>x\<in>set pre. isl (fst (createAndPing newPing ping x dockerOpts))"
      and "fst (createAndPing newPing ping h dockerOpts) = Inr c"
  shows "fst (connectLoop ed newPing ping (pre @ h # post)) = Inr \<lparr>Client = c\<rparr>
       \<and> attemptedHosts (snd (connectLoop ed newPing ping (pre @ h # post))) = pre @ [h]
       \<and> debugLines (snd (connectLoop ed newPing ping (pre @ h # post))) = map (failureLine newPing ping) pre"
  using assms
proof (induction pre)
  case Nil
  then show ?case by (simp del: connectLoop.simps add: connectLoop_ok_step)
next
  case (Cons a pre)
  then have a: "isl (fst (createAndPing newPing ping a dockerOpts))" by simp
  from Cons have ih: "fst (connectLoop ed newPing ping (pre @ h # post)) = Inr \<lparr>Client = c\<rparr>
       \<and> attemptedHosts (snd (connectLoop ed newPing ping (pre @ h # post))) = pre @ [h]
       \<and> debugLines (snd (connectLoop ed newPing ping (pre @ h # post))) = map (failureLine newPing ping) pre"
    by simp
  show ?case
    by (simp del: connectLoop.simps add: connectLoop_fail_step[OF a] ih)
qed

lemma connectLoop_all_fail:
  assumes "\<forall>x\<in>set hosts. isl (fst (createAndPing newPing ping x dockerOpts))"
  shows "fst (connectLoop ed newPing ping hosts)
           = Inl (WrapError (Error ed @ '': unable to create docker client'') ed)
       \<and> attemptedHosts (snd (connectLoop ed newPing ping hosts)) = hosts
       \<and> debugLines (snd (connectLoop ed newPing ping hosts)) = map (failureLine newPing ping) hosts"
  using assms
proof (induction hosts)
  case Nil
  then show ?case by simp
next
  case (Cons a hosts)
  then have a: "isl (fst (createAndPing newPing ping a dockerOpts))" by simp
  from Cons have ih: "fst (connectLoop ed newPing ping hosts)
           = Inl (WrapError (Error ed @ '': unable to create docker client'') ed)
       \<and> attemptedHosts (snd (connectLoop ed newPing ping hosts)) = hosts
       \<and> debugLines (snd (connectLoop ed newPing ping hosts)) = map (failureLine newPing ping) hosts"
    by simp
  show ?case
    by (simp del: connectLoop.simps add: connectLoop_fail_step[OF a] ih)
qed


lemma Is_refl: "Is e e"
  by (cases e) simp_all

lemma sys1_hosts:
  "potentialHosts sys1 ''linux'' =
     [''unix:///run/user/1000/docker.sock'', ''unix:///var/run/docker.sock'',
      ''unix:///home/u/.docker/desktop/docker-cli.sock'']"
  by (simp add: potentialHosts_def contextHosts_def fallbackHosts_def sys1_def)

lemma sys0_hosts_windows:
  "potentialHosts sys0 ''windows'' = [''npipe:////./pipe/docker_engine'']"
  by (simp add: potentialHosts_def contextHosts_def fallbackHosts_def sys0_def)

lemma boom_fails:
  "fst (createAndPing newPing_boom ping_desktop host dockerOpts) =
     Inl (WrapError ''unable to create docker client: boom'' (ErrorString ''boom''))"
  by (simp add: createAndPing_def newPing_boom_def)

text \<open>
  Claim C4, as the code has it. When \<^verbatim>\<open>createAndPing\<close> fails for every candidate,
  \<^verbatim>\<open>newWithOptions\<close> returns the error
  \<^verbatim>\<open>fmt.Errorf("%w: unable to create docker client", abctl.ErrDocker)\<close>: it wraps the
  sentinel \<^verbatim>\<open>abctl.ErrDocker\<close> and its text is the sentinel's text followed by
  \<^verbatim>\<open>: unable to create docker client\<close>. Every candidate was tried, in order, and
  the failure of each one, the last one too, was printed at debug level only.
\<close>

theorem exhausted_C4:
  assumes "\<forall>x\<in>set (potentialHosts sys goos). isl (fst (createAndPing newPing ping x dockerOpts))"
  shows "fst (newWithOptions sys newPing ping goos)
           = Inl (WrapError (Error (ErrDocker sys) @ '': unable to create docker client'') (ErrDocker sys))
       \<and> Is (projl (fst (newWithOptions sys newPing ping goos))) (ErrDocker sys)
       \<and> Unwrap (projl (fst (newWithOptions sys newPing ping goos))) = Some (ErrDocker sys)
       \<and> attemptedHosts (snd (newWithOptions sys newPing ping goos)) = potentialHosts sys goos
       \<and> debugLines (snd (newWithOptions sys newPing ping goos))
           = map (failureLine newPing ping) (potentialHosts sys goos)"
  using connectLoop_all_fail[OF assms, of "ErrDocker sys"]
  by (simp add: newWithOptions_def Is_refl)

theorem exhausted_C4_witness:
  "fst (newWithOptions sys0 newPing_boom ping_desktop ''windows'')
     = Inl (WrapError ''error communicating with docker: unable to create docker client''
                      (ErrorString ''error communicating with docker''))
   \<and> attemptedHosts (snd (newWithOptions sys0 newPing_boom ping_desktop ''windows''))
     = [''npipe:////./pipe/docker_engine'']
   \<and> debugLines (snd (newWithOptions sys0 newPing_boom ping_desktop ''windows''))
     = [''error connecting to docker host npipe:////./pipe/docker_engine: unable to create docker client: boom'']"
proof -
  have a: "\<forall>x\<in>set (potentialHosts sys0 ''windows'').
             isl (fst (createAndPing newPing_boom ping_desktop x dockerOpts))"
    by (simp add: boom_fails)
  have e: "ErrDocker sys0 = ErrorString ''error communicating with docker''"
    by (simp add: sys0_def)
  show ?thesis
    using exhausted_C4 [OF a]
    by (simp add: sys0_hosts_windows e failureLine_def boom_fails)
qed

text \<open>
  Claim C4, as stated, fails: the returned error does not wrap the last underlying failure.
  On windows with no docker context and a constructor that fails with \<^verbatim>\<open>boom\<close>, the only
  candidate fails, and neither that failure nor its cause is on the unwrap chain of the
  error that is returned.
\<close>

theorem exhausted_C4_counterexample:
  "potentialHosts sys0 ''windows'' = [''npipe:////./pipe/docker_engine'']
   \<and> fst (createAndPing newPing_boom ping_desktop ''npipe:////./pipe/docker_engine'' dockerOpts)
       = Inl (WrapError ''unable to create docker client: boom'' (ErrorString ''boom''))
   \<and> isl (fst (newWithOptions sys0 newPing_boom ping_desktop ''windows''))
   \<and> \<not> Is (projl (fst (newWithOptions sys0 newPing_boom ping_desktop ''windows'')))
          (WrapError ''unable to create docker client: boom'' (ErrorString ''boom''))
   \<and> \<not> Is (projl (fst (newWithOptions sys0 newPing_boom ping_desktop ''windows'')))
          (ErrorString ''boom'')"
proof -
  have e: "ErrDocker sys0 = ErrorString ''error communicating with docker''"
    by (simp add: sys0_def)
  have "\<forall>x\<in>set [''npipe:////./pipe/docker_engine''].
          isl (fst (createAndPing newPing_boom ping_desktop x dockerOpts))"
    by (simp add: boom_fails)
  from connectLoop_all_fail [OF this, of "ErrDocker sys0"]
  have r: "fst (newWithOptions sys0 newPing_boom ping_desktop ''windows'')
             = Inl (WrapError ''error communicating with docker: unable to create docker client''
                              (ErrorString ''error communicating with docker''))"
    by (simp add: newWithOptions_def sys0_hosts_windows e)
  show ?thesis
    by (simp add: sys0_hosts_windows boom_fails r)
qed

text \<open>
  Claim C5. When the first candidates of the list all fail in \<^verbatim>\<open>createAndPing\<close>
  (at construction or at the ping) and the next one succeeds, \<^verbatim>\<open>newWithOptions\<close>
  returns the client built for that candidate, has printed one debug line for each earlier
  failure, and has called the constructor for those candidates and this one only: no
  candidate after it is tried.
\<close>

theorem first_success_C5:
  assumes "potentialHosts sys goos = pre @ h # post"
      and "\<forall>x\<in>set pre. isl (fst (createAndPing newPing ping x dockerOpts))"
      and "fst (createAndPing newPing ping h dockerOpts) = Inr c"
  shows "fst (newWithOptions sys newPing ping goos) = Inr \<lparr>Client = c\<rparr>
       \<and> attemptedHosts (snd (newWithOptions sys newPing ping goos)) = pre @ [h]
       \<and> debugLines (snd (newWithOptions sys newPing ping goos)) = map (failureLine newPing ping) pre"
  unfolding newWithOptions_def assms(1)
  using assms(2,3) by (rule connectLoop_first_success)

theorem first_success_C5_witness:
  "fst (newWithOptions sys1 newPing_host ping_standard ''linux'')
     = Inr \<lparr>Client = ''unix:///var/run/docker.sock''\<rparr>
   \<and> attemptedHosts (snd (newWithOptions sys1 newPing_host ping_standard ''linux''))
     = [''unix:///run/user/1000/docker.sock'', ''unix:///var/run/docker.sock'']
   \<and> debugLines (snd (newWithOptions sys1 newPing_host ping_standard ''linux''))
     = [''error connecting to docker host unix:///run/user/1000/docker.sock: unable to ping docker client: connection refused'']"
proof -
  have h: "potentialHosts sys1 ''linux'' =
             [''unix:///run/user/1000/docker.sock''] @ ''unix:///var/run/docker.sock''
               # [''unix:///home/u/.docker/desktop/docker-cli.sock'']"
    by (simp add: sys1_hosts)
  have f: "fst (createAndPing newPing_host ping_standard ''unix:///run/user/1000/docker.sock'' dockerOpts)
             = Inl (WrapError ''unable to ping docker client: connection refused''
                              (ErrorString ''connection refused''))"
    by (simp add: createAndPing_def ping_standard_def)
  have a: "\<forall>x\<in>set [''unix:///run/user/1000/docker.sock''].
             isl (fst (createAndPing newPing_host ping_standard x dockerOpts))"
    by (simp add: f)
  have b: "fst (createAndPing newPing_host ping_standard ''unix:///var/run/docker.sock'' dockerOpts)
             = Inr ''unix:///var/run/docker.sock''"
    by (simp add: createAndPing_def ping_standard_def)
  show ?thesis
    using first_success_C5 [OF h a b]
    by (simp add: failureLine_def f)
qed



section \<open>Properties of the uninstall command\<close>

text \<open>
  Claim C1. In a run that reaches an existing cluster (docker found, cluster handle
  obtained, \<^verbatim>\<open>Exists\<close> true), \<^verbatim>\<open>cluster.Delete\<close> is always called; the error of
  \<^verbatim>\<open>Run\<close> is nil exactly when that of \<^verbatim>\<open>Delete\<close> is, whatever
  \<^verbatim>\<open>service.NewManager\<close> and \<^verbatim>\<open>svcMgr.Uninstall\<close> returned. A failure of the
  manager's construction is printed as a warning before the deletion, and \<^verbatim>\<open>Uninstall\<close>
  is then not called; a failure of \<^verbatim>\<open>Uninstall\<close> is printed as a warning, with its
  text, before the deletion.
\<close>

theorem uninstall_C1:
  assumes "dockerInstalled_err c = None" and "Cluster_err c = None" and "Exists_result c"
  shows "(fst (Run c u p) = None \<longleftrightarrow> Delete_err c = None)
       \<and> fst (Run c u p) = (if Delete_err c = None then None
                            else Some (ErrorString (''unable to uninstall cluster '' @ ClusterName p)))
       \<and> CallClusterDelete \<in> set (snd (Run c u p))
       \<and> (NewManager_err c \<noteq> None \<longrightarrow>
            CallUninstall (Persisted u) \<notin> set (snd (Run c u p))
          \<and> happensBefore
               (PtermWarning ''Failed to initialize 'local' command\<newline>Uninstallation attempt will continue'')
               CallClusterDelete (snd (Run c u p)))
       \<and> (NewManager_err c = None \<and> Uninstall_err c \<noteq> None \<longrightarrow>
            happensBefore (CallUninstall (Persisted u)) CallClusterDelete (snd (Run c u p))
          \<and> happensBefore (PtermWarning (''unable to complete uninstall: '' @ Error (the (Uninstall_err c))))
               CallClusterDelete (snd (Run c u p))
          \<and> happensBefore (PtermWarning ''will still attempt to uninstall the cluster'')
               CallClusterDelete (snd (Run c u p)))"
  using assms
  by (auto simp: Run_def uninstallBody_def uninstallService_def telClient_Wrap_def Let_def
           split: option.splits)

theorem uninstall_C1_witness:
  "fst (Run serviceFails cmd0 prov0) = None
   \<and> fst (Run managerFails cmd0 prov0) = None
   \<and> CallClusterDelete \<in> set (snd (Run serviceFails cmd0 prov0))
   \<and> happensBefore (PtermWarning ''unable to complete uninstall: helm: release not found'')
         CallClusterDelete (snd (Run serviceFails cmd0 prov0))
   \<and> happensBefore
         (PtermWarning ''Failed to initialize 'local' command\<newline>Uninstallation attempt will continue'')
         CallClusterDelete (snd (Run managerFails cmd0 prov0))"
proof -
  have s: "dockerInstalled_err serviceFails = None" "Cluster_err serviceFails = None"
          "Exists_result serviceFails" "NewManager_err serviceFails = None"
          "Uninstall_err serviceFails = Some (ErrorString ''helm: release not found'')"
          "Delete_err serviceFails = None"
    by (simp_all add: serviceFails_def allGood_def)
  have m: "dockerInstalled_err managerFails = None" "Cluster_err managerFails = None"
          "Exists_result managerFails" "NewManager_err managerFails = Some (ErrorString ''no kubeconfig'')"
          "Delete_err managerFails = None"
    by (simp_all add: managerFails_def allGood_def)
  show ?thesis
    using uninstall_C1 [OF s(1) s(2) s(3), of cmd0 prov0]
          uninstall_C1 [OF m(1) m(2) m(3), of cmd0 prov0]
    by (simp add: s m)
qed

text \<open>
  Claim C2. In a run where docker is found, the cluster handle is obtained and
  \<^verbatim>\<open>cluster.Exists\<close> is false, \<^verbatim>\<open>Run\<close> returns nil after printing that the cluster
  does not exist: the trace is exactly the one below, with no call of
  \<^verbatim>\<open>service.NewManager\<close>, of \<^verbatim>\<open>Uninstall\<close> or of \<^verbatim>\<open>cluster.Delete\<close>.
\<close>

theorem uninstall_absent_C2:
  assumes "dockerInstalled_err c = None" and "Cluster_err c = None" and "\<not> Exists_result c"
  shows "fst (Run c u p) = None
       \<and> snd (Run c u p) =
           [NewSpan ''local uninstall'',
            SpanSetAttributes_Bool ''persisted'' (Persisted u),
            SpinnerStart ''Starting uninstallation'',
            SpinnerUpdateText ''Checking for Docker installation'',
            CallDockerInstalled,
            WrapStart Uninstall,
            SpinnerUpdateText (''Checking for existing Kubernetes cluster '' @ quoted (ClusterName p)),
            CallProviderCluster,
            CallClusterExists,
            PtermSuccess (''Cluster '' @ quoted (ClusterName p)
                          @ '' does not exist\<newline>No additional action required''),
            WrapEnd Uninstall,
            SpanEnd]
       \<and> CallNewManager \<notin> set (snd (Run c u p))
       \<and> CallUninstall (Persisted u) \<notin> set (snd (Run c u p))
       \<and> CallClusterDelete \<notin> set (snd (Run c u p))"
  using assms
  by (simp add: Run_def uninstallBody_def telClient_Wrap_def Let_def)

theorem uninstall_absent_C2_witness:
  "fst (Run noCluster cmd0 prov0) = None
   \<and> CallNewManager \<notin> set (snd (Run noCluster cmd0 prov0))
   \<and> CallClusterDelete \<notin> set (snd (Run noCluster cmd0 prov0))"
proof -
  have n: "dockerInstalled_err noCluster = None" "Cluster_err noCluster = None"
          "\<not> Exists_result noCluster"
    by (simp_all add: noCluster_def allGood_def)
  show ?thesis
    using uninstall_absent_C2 [OF n, of cmd0 prov0] by simp
qed



text \<open>
  Claim C6, as the code has it. \<^verbatim>\<open>Run\<close> first opens the span \<^verbatim>\<open>local uninstall\<close>
  and sets its \<^verbatim>\<open>persisted\<close> attribute, starts the spinner, and only then checks for
  docker. When the check succeeds, the telemetry scope of \<^verbatim>\<open>telClient.Wrap\<close> and the
  cluster lookup start after it. When the check fails, \<^verbatim>\<open>Run\<close> returns at once an error
  that wraps the failure: the trace ends with the error line and the end of the span, with
  no telemetry scope, cluster lookup, existence check, manager construction or deletion.
\<close>

theorem span_order_C6:
  "take 5 (snd (Run c u p)) =
     [NewSpan ''local uninstall'',
      SpanSetAttributes_Bool ''persisted'' (Persisted u),
      SpinnerStart ''Starting uninstallation'',
      SpinnerUpdateText ''Checking for Docker installation'',
      CallDockerInstalled]
   \<and> (dockerInstalled_err c = None \<longrightarrow>
        happensBefore CallDockerInstalled (WrapStart Uninstall) (snd (Run c u p))
      \<and> happensBefore CallDockerInstalled CallProviderCluster (snd (Run c u p)))
   \<and> (dockerInstalled_err c \<noteq> None \<longrightarrow>
        fst (Run c u p) =
          Some (WrapError (''unable to determine docker installation status: ''
                           @ Error (the (dockerInstalled_err c))) (the (dockerInstalled_err c)))
      \<and> snd (Run c u p) =
          [NewSpan ''local uninstall'',
           SpanSetAttributes_Bool ''persisted'' (Persisted u),
           SpinnerStart ''Starting uninstallation'',
           SpinnerUpdateText ''Checking for Docker installation'',
           CallDockerInstalled,
           PtermError ''Unable to determine if Docker is installed'',
           SpanEnd]
      \<and> WrapStart Uninstall \<notin> set (snd (Run c u p))
      \<and> CallProviderCluster \<notin> set (snd (Run c u p))
      \<and> CallClusterExists \<notin> set (snd (Run c u p))
      \<and> CallNewManager \<notin> set (snd (Run c u p))
      \<and> CallClusterDelete \<notin> set (snd (Run c u p)))"
  by (auto simp: Run_def uninstallBody_def uninstallService_def telClient_Wrap_def Let_def
           split: option.splits)

theorem span_order_C6_witness:
  "fst (Run noDocker cmd0 prov0) =
     Some (WrapError ''unable to determine docker installation status: docker not found''
                     (ErrorString ''docker not found''))
   \<and> CallProviderCluster \<notin> set (snd (Run noDocker cmd0 prov0))
   \<and> CallClusterExists \<notin> set (snd (Run noDocker cmd0 prov0))
   \<and> CallNewManager \<notin> set (snd (Run noDocker cmd0 prov0))
   \<and> CallClusterDelete \<notin> set (snd (Run noDocker cmd0 prov0))
   \<and> happensBefore CallDockerInstalled (WrapStart Uninstall) (snd (Run allGood cmd0 prov0))"
proof -
  have n: "dockerInstalled_err noDocker = Some (ErrorString ''docker not found'')"
    by (simp add: noDocker_def allGood_def)
  have g: "dockerInstalled_err allGood = None"
    by (simp add: allGood_def)
  show ?thesis
    using span_order_C6 [of noDocker cmd0 prov0] span_order_C6 [of allGood cmd0 prov0]
    by (simp add: n g)
qed

text \<open>
  Claim C6, as stated, fails: the span that carries the \<^verbatim>\<open>persisted\<close> attribute is not
  opened after the docker check. In a run where every step succeeds, the check does not
  come before \<^verbatim>\<open>trace.NewSpan\<close> nor before \<^verbatim>\<open>span.SetAttributes\<close>; both come before it.
\<close>

theorem span_order_C6_counterexample:
  "\<not> happensBefore CallDockerInstalled (NewSpan ''local uninstall'') (snd (Run allGood cmd0 prov0))
   \<and> \<not> happensBefore CallDockerInstalled (SpanSetAttributes_Bool ''persisted'' False)
          (snd (Run allGood cmd0 prov0))
   \<and> happensBefore (NewSpan ''local uninstall'') CallDockerInstalled (snd (Run allGood cmd0 prov0))
   \<and> happensBefore (SpanSetAttributes_Bool ''persisted'' False) CallDockerInstalled
          (snd (Run allGood cmd0 prov0))"
  by (simp add: Run_def uninstallBody_def uninstallService_def telClient_Wrap_def Let_def
        allGood_def cmd0_def prov0_def)


section \<open>Properties of the log scanner\<close>

lemma splitLines_line:
  "CHR ''\<newline>'' \<notin> set l \<Longrightarrow> splitLines (l @ CHR ''\<newline>'' # rest) = l # splitLines rest"
  by (induction l) auto

lemma splitLines_last:
  "CHR ''\<newline>'' \<notin> set l \<Longrightarrow> l \<noteq> [] \<Longrightarrow> splitLines l = [l]"
proof (induction l)
  case Nil
  then show ?case by simp
next
  case (Cons c cs)
  then show ?case by (cases cs) auto
qed

lemma scanAll_pending:
  "err s = None \<Longrightarrow> scanAll decode s = map (\<lambda>l. (scanLine decode l, None)) (pending s)"
proof (induction "pending s" arbitrary: s)
  case Nil
  then show ?case
    by (subst scanAll.simps) (simp add: Scan_def Nil.hyps [symmetric])
next
  case (Cons l ls)
  let ?s' = "s\<lparr>pending := ls, Line := scanLine decode l\<rparr>"
  have sc: "Scan decode s = (True, ?s')"
    by (simp add: Scan_def Cons.hyps(2) [symmetric])
  have "scanAll decode ?s' = map (\<lambda>l. (scanLine decode l, None)) (pending ?s')"
    by (rule Cons.hyps(1)) (simp_all add: Cons.prems)
  then have ih: "scanAll decode ?s' = map (\<lambda>l. (scanLine decode l, None)) ls"
    by simp
  have "scanAll decode s = (Line ?s', Err ?s') # scanAll decode ?s'"
    by (subst scanAll.simps) (simp add: sc)
  then show ?case
    by (simp add: ih Err_def Cons.prems Cons.hyps(2) [symmetric])
qed

lemma scanAll_New:
  "scanAll decode (NewLogScanner input rf) = map (\<lambda>l. (scanLine decode l, None)) (splitLines input)"
  by (simp add: scanAll_pending NewLogScanner_def)

text \<open>
  Claim C7. Scanning an input to its end gives one record per line of the input, in
  order. A line the decoder accepts gives the level and the message of the decoded record;
  a line it rejects gives the whole line as message and the empty level. The error read
  after each successful \<^verbatim>\<open>Scan\<close> is nil, accepted or not. In particular an input of
  two lines, the first rejected and the second decoded with level \<^verbatim>\<open>WARN\<close>, gives the
  record with empty level and the first line as message, then the record with level
  \<^verbatim>\<open>WARN\<close> and the decoded message.
\<close>

theorem log_scanner_C7:
  "map fst (scanAll decode (NewLogScanner input rf)) = map (scanLine decode) (splitLines input)
   \<and> map snd (scanAll decode (NewLogScanner input rf)) = replicate (length (splitLines input)) None
   \<and> (decode l = Some r \<longrightarrow> scanLine decode l = \<lparr>Level = level r, Message = message r\<rparr>)
   \<and> (decode l = None \<longrightarrow> scanLine decode l = \<lparr>Level = '''', Message = l\<rparr>)
   \<and> (CHR ''\<newline>'' \<notin> set l1 \<and> CHR ''\<newline>'' \<notin> set l2 \<and> l2 \<noteq> []
        \<and> decode l1 = None \<and> decode l2 = Some r2 \<and> level r2 = ''WARN'' \<longrightarrow>
      scanAll decode (NewLogScanner (l1 @ ''\<newline>'' @ l2) rf) =
        [(\<lparr>Level = '''', Message = l1\<rparr>, None), (\<lparr>Level = ''WARN'', Message = message r2\<rparr>, None)])"
  by (simp add: scanAll_New scanLine_def splitLines_line splitLines_last map_replicate_const comp_def)

theorem log_scanner_C7_witness:
  "scanAll testDecode (NewLogScanner (testLine1 @ ''\<newline>'' @ testLine2) None) =
     [(\<lparr>Level = '''', Message = ''nonjsonline''\<rparr>, None),
      (\<lparr>Level = ''WARN'', Message = ''Waiting for database to become available...''\<rparr>, None)]"
proof -
  have a: "CHR ''\<newline>'' \<notin> set testLine1" "CHR ''\<newline>'' \<notin> set testLine2" "testLine2 \<noteq> []"
    by (simp_all add: testLine1_def testLine2_def)
  have b: "testDecode testLine1 = None"
    by (simp add: testDecode_def testLine1_def testLine2_def)
  have c: "testDecode testLine2 = Some \<lparr>timestamp = 1734723317023,
              message = ''Waiting for database to become available...'',
              level = ''WARN'', logSource = ''platform'',
              caller = ''io.airbyte.db.check.DatabaseAvailabilityCheck.check:38 main'',
              throwable = None\<rparr>"
    by (simp add: testDecode_def)
  show ?thesis
    using log_scanner_C7 [of testDecode "''''" None testLine1 "\<lparr>timestamp = 0, message = '''', level = '''', logSource = '''', caller = '''', throwable = None\<rparr>" testLine1 testLine2
       "\<lparr>timestamp = 1734723317023,
              message = ''Waiting for database to become available...'',
              level = ''WARN'', logSource = ''platform'',
              caller = ''io.airbyte.db.check.DatabaseAvailabilityCheck.check:38 main'',
              throwable = None\<rparr>"]
    by (simp add: a b c) (simp add: testLine1_def)
qed

section \<open>Properties of the providers\<close>




text \<open>
  Claim C9. When the directory of the provider's kubeconfig is not on disk and
  \<^verbatim>\<open>Provider.Cluster\<close> returns a nil error, the directory is on disk afterwards and the
  returned handle is not nil.
\<close>

theorem provider_cluster_C9:
  assumes "Dir (Kubeconfig p) \<notin> dirs w"
      and "snd (fst (Provider_Cluster mkdirErr createErr p w)) = None"
  shows "Dir (Kubeconfig p) \<in> dirs (snd (Provider_Cluster mkdirErr createErr p w))
       \<and> fst (fst (Provider_Cluster mkdirErr createErr p w)) \<noteq> None"
  using assms
  by (auto simp: Provider_Cluster_def Let_def split: option.splits if_splits)

theorem provider_cluster_C9_witness:
  "''/tmp/abctl'' \<notin> dirs world0
   \<and> ''/tmp/abctl'' \<in> dirs (snd (Provider_Cluster None None (TestProvider paths0) world0))
   \<and> fst (fst (Provider_Cluster None None (TestProvider paths0) world0)) \<noteq> None"
proof -
  have k: "Kubeconfig (TestProvider paths0) = ''/tmp/abctl/abctl.kubeconfig''"
    by (simp add: TestProvider_def paths0_def underDir_def)
  have d: "Dir (Kubeconfig (TestProvider paths0)) = ''/tmp/abctl''"
    by (simp add: k Dir_def)
  have a: "Dir (Kubeconfig (TestProvider paths0)) \<notin> dirs world0"
    by (simp add: d world0_def)
  have b: "snd (fst (Provider_Cluster None None (TestProvider paths0) world0)) = None"
    by (simp add: Provider_Cluster_def Let_def world0_def)
  show ?thesis
    using provider_cluster_C9 [OF a b] a by (simp add: d)
qed


end
